theory Spec2Isabelle
  imports Main
begin

section \<open>LeetCodeBot: command cog helpers and the problem thread manager\<close>

text \<open>
  A shallow embedding of \<^verbatim>\<open>cogs/leetcode.py\<close> (the ready listener and the
  description preview), of \<^verbatim>\<open>db/problem.py\<close> (the mapped class Problem) and of
  \<^verbatim>\<open>core/problem_threads.py\<close> (the thread registry and the reconciler
  \<^verbatim>\<open>reopen_or_create_problem_thread\<close>). Python integers are \<open>int\<close>, Python
  strings are \<open>string\<close> with one \<open>char\<close> standing for one code point, dictionaries are
  maps, tables are lists of rows in storage order, and a raise is a value of type
  \<open>error\<close> returned next to the state reached at the raise.
\<close>

datatype error =
    ForumChannelNotFound string
  | ValueError
  | AssertionError
  | IntegrityError
  | RuntimeError
  | AttributeError string
  | HTTPException

subsection \<open>Python primitives: slices and decimal rendering\<close>

text \<open>\<^verbatim>\<open>xs[:n]\<close>: a negative bound counts from the end.\<close>

definition slice_to :: "'a list \<Rightarrow> int \<Rightarrow> 'a list" where
  "slice_to xs n =
     (if 0 \<le> n then take (nat n) xs else take (length xs - nat (- n)) xs)"

definition digit_char :: "nat \<Rightarrow> char" where
  "digit_char d = ''0123456789'' ! d"

text \<open>\<^verbatim>\<open>str(n)\<close> for a natural number: most significant digit first.\<close>

function str_nat :: "nat \<Rightarrow> string" where
  "str_nat n = (if n < 10 then [digit_char n] else str_nat (n div 10) @ [digit_char (n mod 10)])"
  by pat_completeness auto
termination
  by (relation "measure (\<lambda>n. n)") auto

declare str_nat.simps [simp del]

text \<open>\<^verbatim>\<open>str(i)\<close>, as an f-string renders an integer.\<close>

definition str_int :: "int \<Rightarrow> string" where
  "str_int i = (if i < 0 then ''-'' @ str_nat (nat (- i)) else str_nat (nat i))"

subsection \<open>cogs/leetcode.py: the ready listener\<close>

text \<open>
  \<^verbatim>\<open>weekly_cache_refresh\<close> is a task loop of the problem manager. Of it the listener
  uses \<^verbatim>\<open>is_running()\<close> and \<^verbatim>\<open>start()\<close>; \<open>starts\<close> counts the calls of
  \<^verbatim>\<open>start()\<close> that went through. Starting a running loop raises.
\<close>

record Loop =
  running :: bool
  starts :: nat

definition is_running :: "Loop \<Rightarrow> bool" where
  "is_running l = running l"

definition start :: "Loop \<Rightarrow> error + Loop" where
  "start l = (if running l then Inl RuntimeError
              else Inr (l\<lparr>running := True, starts := starts l + 1\<rparr>))"

text \<open>
  \<^verbatim>\<open>LeetCode.on_ready\<close>. The flag \<^verbatim>\<open>debug\<close> comes from \<^verbatim>\<open>config.secrets\<close>,
  which is not among the sources, and is a parameter.
\<close>

definition on_ready :: "bool \<Rightarrow> Loop \<Rightarrow> error + Loop" where
  "on_ready debug weekly_cache_refresh =
     (if \<not> debug \<and> \<not> is_running weekly_cache_refresh
      then start weekly_cache_refresh
      else Inr weekly_cache_refresh)"

subsection \<open>cogs/leetcode.py: the description preview\<close>

text \<open>
  \<^verbatim>\<open>LeetCode.parse_problem_desc\<close>. The constant \<^verbatim>\<open>preview_len\<close> comes from
  \<^verbatim>\<open>config.constants\<close>, which is not among the sources, and is a parameter.
\<close>

definition parse_problem_desc :: "int \<Rightarrow> string \<Rightarrow> string" where
  "parse_problem_desc preview_len content =
     (if content = [] then ''No description available.''
      else slice_to content preview_len
           @ (if int (length content) > preview_len then ''...'' else ''''))"

subsection \<open>db/problem.py: the mapped class Problem\<close>

text \<open>
  A Python value held by an attribute of a mapped instance, and an instance as the
  dictionary of its attributes. Reading an attribute the instance does not have
  raises \<^verbatim>\<open>AttributeError\<close>.
\<close>

datatype pyval = PyInt int | PyStr string | PyNone

type_synonym py_object = "(string \<times> pyval) list"

definition getattr :: "py_object \<Rightarrow> string \<Rightarrow> error + pyval" where
  "getattr obj a = (case map_of obj a of None \<Rightarrow> Inl (AttributeError a) | Some v \<Rightarrow> Inr v)"

text \<open>
  The columns the class \<^verbatim>\<open>Problem\<close> declares (lines 17 to 22 of
  \<^verbatim>\<open>db/problem.py\<close>); \<^verbatim>\<open>description\<close> is nullable. The relationship
  \<^verbatim>\<open>tags\<close> holds no scalar and is left out of the row.
\<close>

record ProblemRow =
  row_id :: int
  row_title :: string
  row_problem_id :: int
  row_url :: string
  row_difficulty :: int
  row_description :: "string option"

definition Problem_instance :: "ProblemRow \<Rightarrow> py_object" where
  "Problem_instance r =
     [(''id'', PyInt (row_id r)),
      (''title'', PyStr (row_title r)),
      (''problem_id'', PyInt (row_problem_id r)),
      (''url'', PyStr (row_url r)),
      (''difficulty'', PyInt (row_difficulty r)),
      (''description'', (case row_description r of None \<Rightarrow> PyNone | Some d \<Rightarrow> PyStr d))]"

text \<open>
  The two reads of \<^verbatim>\<open>_create_thread\<close> the title and the body start from (lines 229
  and 231 of \<^verbatim>\<open>core/problem_threads.py\<close>), on an instance of the class as
  declared.
\<close>

definition read_problem_frontend_id :: "ProblemRow \<Rightarrow> error + pyval" where
  "read_problem_frontend_id r = getattr (Problem_instance r) ''problem_frontend_id''"

definition read_premium :: "ProblemRow \<Rightarrow> error + pyval" where
  "read_premium r = getattr (Problem_instance r) ''premium''"

text \<open>
  What an f-string renders for a value that was read, and the truth value an
  \<^verbatim>\<open>if\<close> takes it for.
\<close>

fun py_str :: "pyval \<Rightarrow> string" where
  "py_str (PyInt i) = str_int i"
| "py_str (PyStr t) = t"
| "py_str PyNone = ''None''"

fun truthy :: "pyval \<Rightarrow> bool" where
  "truthy (PyInt i) = (i \<noteq> 0)"
| "truthy (PyStr t) = (t \<noteq> [])"
| "truthy PyNone = False"

subsection \<open>The chat platform, as the thread manager sees it\<close>

text \<open>
  The SDK is an external collaborator. A guild holds its channels by id; a forum channel
  offers tags, a thread belongs to a forum channel and carries a name, applied tags and
  a starter message. Every id the platform hands out (a new tag, a new thread) is the
  guild's \<open>next_snowflake\<close>, which then moves on. Limits of the platform (lengths,
  number of tags, permissions) are not modelled: a call fails only when the channel it
  addresses is not a forum channel of the guild.
\<close>

record ForumTag =
  tag_id :: int
  tag_name :: string

record thread_info =
  ti_name :: string
  ti_parent_id :: int
  ti_applied_tags :: "ForumTag list"
  ti_content :: string

datatype channel = Forum "ForumTag list" | Thr thread_info | Other

record Guild =
  g_id :: int
  channels :: "int \<rightharpoonup> channel"
  next_snowflake :: int

text \<open>The objects the SDK returns for a channel id.\<close>

record ForumChannel =
  fc_id :: int
  fc_guild_id :: int
  available_tags :: "ForumTag list"

record Thread =
  th_id :: int
  th_info :: thread_info

record Message =
  m_content :: string

record ThreadWithMessage =
  twm_thread :: Thread
  twm_message :: Message

datatype channel_obj = ForumChannelObj ForumChannel | ThreadObj Thread | OtherObj int

text \<open>
  Modelled from the spec: \<^verbatim>\<open>try_get_channel\<close> of \<^verbatim>\<open>utils/discord_utils.py\<close>, which
  is not among the sources. It resolves a channel id to a live channel of the guild, and
  gives \<^verbatim>\<open>None\<close> when the resolution fails.
\<close>

definition try_get_channel :: "Guild \<Rightarrow> int \<Rightarrow> channel_obj option" where
  "try_get_channel guild cid =
     (case channels guild cid of
        None \<Rightarrow> None
      | Some (Forum tags) \<Rightarrow>
          Some (ForumChannelObj \<lparr>fc_id = cid, fc_guild_id = g_id guild, available_tags = tags\<rparr>)
      | Some (Thr info) \<Rightarrow> Some (ThreadObj \<lparr>th_id = cid, th_info = info\<rparr>)
      | Some Other \<Rightarrow> Some (OtherObj cid))"

text \<open>\<^verbatim>\<open>ForumChannel.create_tag\<close>: the platform appends a tag of that name.\<close>

definition create_tag :: "Guild \<Rightarrow> ForumChannel \<Rightarrow> string \<Rightarrow> (error + unit) \<times> Guild" where
  "create_tag guild ch nm =
     (case channels guild (fc_id ch) of
        Some (Forum tags) \<Rightarrow>
          (Inr (),
           guild\<lparr>channels := (channels guild)(fc_id ch \<mapsto>
                     Forum (tags @ [\<lparr>tag_id = next_snowflake guild, tag_name = nm\<rparr>])),
                 next_snowflake := next_snowflake guild + 1\<rparr>)
      | _ \<Rightarrow> (Inl HTTPException, guild))"

text \<open>The loop \<^verbatim>\<open>for tag_name in tags_to_create: await channel.create_tag(name=tag_name)\<close>.\<close>

fun create_tags :: "Guild \<Rightarrow> ForumChannel \<Rightarrow> string list \<Rightarrow> (error + unit) \<times> Guild" where
  "create_tags guild ch [] = (Inr (), guild)"
| "create_tags guild ch (nm # nms) =
     (case create_tag guild ch nm of
        (Inl e, guild') \<Rightarrow> (Inl e, guild')
      | (Inr _, guild') \<Rightarrow> create_tags guild' ch nms)"

text \<open>\<^verbatim>\<open>ForumChannel.create_thread\<close>: the platform opens a thread with a starter message.\<close>

definition forum_create_thread ::
  "Guild \<Rightarrow> ForumChannel \<Rightarrow> string \<Rightarrow> string \<Rightarrow> ForumTag list
     \<Rightarrow> (error + ThreadWithMessage) \<times> Guild" where
  "forum_create_thread guild ch nm body tags =
     (case channels guild (fc_id ch) of
        Some (Forum _) \<Rightarrow>
          (let info = \<lparr>ti_name = nm, ti_parent_id = fc_id ch, ti_applied_tags = tags,
                       ti_content = body\<rparr>;
               tid = next_snowflake guild
           in (Inr \<lparr>twm_thread = \<lparr>th_id = tid, th_info = info\<rparr>,
                    twm_message = \<lparr>m_content = body\<rparr>\<rparr>,
               guild\<lparr>channels := (channels guild)(tid \<mapsto> Thr info),
                     next_snowflake := tid + 1\<rparr>))
      | _ \<Rightarrow> (Inl HTTPException, guild))"

subsection \<open>The embed of a problem\<close>

text \<open>
  The bot as \<^verbatim>\<open>utils/embed_utils.py\<close> reads it: \<^verbatim>\<open>client.user\<close> and the result of
  \<^verbatim>\<open>client.get_user(DEV_ID)\<close>, each with its avatar.
\<close>

record User =
  user_name :: string
  avatar :: "string option"

record Bot =
  bot_user :: "User option"
  dev_user :: "User option"

text \<open>
  \<^verbatim>\<open>add_std_footer\<close>: nothing to do without \<^verbatim>\<open>client.user\<close>; otherwise the
  assertion on the developer and the two avatars. Of the embed only whether building
  it raises is modelled; its contents are presentation.
\<close>

definition add_std_footer :: "Bot \<Rightarrow> error + unit" where
  "add_std_footer client =
     (case bot_user client of
        None \<Rightarrow> Inr ()
      | Some u \<Rightarrow>
          (case dev_user client of
             None \<Rightarrow> Inl AssertionError
           | Some dev \<Rightarrow>
               if avatar dev \<noteq> None \<and> avatar u \<noteq> None then Inr () else Inl AssertionError))"

text \<open>
  \<^verbatim>\<open>get_problem_desc_embed\<close> of \<^verbatim>\<open>utils/embed_presenters.py\<close>. The title of
  the embed (line 91) reads \<^verbatim>\<open>problem.problem_frontend_id\<close> and
  \<^verbatim>\<open>problem.title\<close> before \<^verbatim>\<open>create_themed_embed\<close> is called with the client;
  the reads that follow (\<^verbatim>\<open>description\<close>, \<^verbatim>\<open>url\<close>, \<^verbatim>\<open>difficulty\<close>) are of
  attributes the class declares, and setting the fields does not raise.
\<close>

definition get_problem_desc_embed :: "ProblemRow \<Rightarrow> Bot \<Rightarrow> error + unit" where
  "get_problem_desc_embed problem client =
     (case read_problem_frontend_id problem of
        Inl e \<Rightarrow> Inl e
      | Inr _ \<Rightarrow> add_std_footer client)"

subsection \<open>Difficulty labels\<close>

text \<open>
  Modelled from the spec: the enum \<^verbatim>\<open>ProblemDifficulity\<close> of \<^verbatim>\<open>models/leetcode.py\<close>,
  which is not among the sources: Easy, Medium and Hard, each with its human-readable
  label. The table \<^verbatim>\<open>from_db_repr\<close> from the stored ordinal to the enum is a
  parameter; \<open>None\<close> stands for the exception it raises on another ordinal.
\<close>

datatype ProblemDifficulity = Easy | Medium | Hard

fun str_repr :: "ProblemDifficulity \<Rightarrow> string" where
  "str_repr Easy = ''Easy''"
| "str_repr Medium = ''Medium''"
| "str_repr Hard = ''Hard''"

text \<open>\<^verbatim>\<open>get_difficulty_str_repr\<close> of \<^verbatim>\<open>utils/embed_presenters.py\<close>.\<close>

definition get_difficulty_str_repr :: "(int \<Rightarrow> ProblemDifficulity option) \<Rightarrow> int \<Rightarrow> string" where
  "get_difficulty_str_repr from_db_repr difficulty_db_repr =
     (case from_db_repr difficulty_db_repr of
        Some d \<Rightarrow> str_repr d
      | None \<Rightarrow> ''Unknown'')"

subsection \<open>core/problem_threads.py: the thread registry\<close>

text \<open>
  Modelled from the spec: the rows of \<^verbatim>\<open>db/thread_channel.py\<close> and
  \<^verbatim>\<open>db/problem_threads.py\<close>, which are not among the sources, with the attributes
  the manager reads and sets: one row per guild for the forum channel (\<^verbatim>\<open>id\<close>, here
  \<open>gfc_id\<close>, is the primary key), one row per created thread.
\<close>

record GuildForumChannel =
  gfc_id :: int
  guild_id :: int
  channel_id :: int

record ProblemThreads =
  thread_id :: int
  problem_db_id :: int
  forum_channel_db_id :: int

text \<open>
  The manager with its database: the two tables, in storage order, and the two
  dictionaries \<^verbatim>\<open>self.problem_threads\<close> (by thread id) and
  \<^verbatim>\<open>self.forum_channels\<close> (by guild id). The lookup
  \<^verbatim>\<open>leetcode_problem_manager.get_problem_with_frontend_id\<close> belongs to
  \<^verbatim>\<open>core/leetcode_problem.py\<close>, which is not among the sources, and is a field: it
  gives the problem stored for the value it is called with, or nothing. The external id
  reaches it, and the registry, as the value the reconciler read from the problem. A
  block
  \<^verbatim>\<open>with self.database_manager as db\<close> commits when it is left without an exception
  and changes nothing otherwise.
\<close>

record ProblemThreadsManager =
  db_forum_channels :: "GuildForumChannel list"
  db_problem_threads :: "ProblemThreads list"
  problem_threads :: "int \<rightharpoonup> ProblemThreads"
  forum_channels :: "int \<rightharpoonup> GuildForumChannel"
  get_problem_with_frontend_id :: "pyval \<Rightarrow> ProblemRow option"

text \<open>The primary key of a new row: one more than the largest in the table.\<close>

definition next_rowid :: "int list \<Rightarrow> int" where
  "next_rowid ids = foldr max ids 0 + 1"

definition add_forum_channel_to_db ::
  "ProblemThreadsManager \<Rightarrow> int \<Rightarrow> int \<Rightarrow> ProblemThreadsManager" where
  "add_forum_channel_to_db s gid cid =
     (case find (\<lambda>r. guild_id r = gid) (db_forum_channels s) of
        Some forum_channel \<Rightarrow>
          (let forum_channel' = forum_channel\<lparr>channel_id := cid\<rparr>
           in s\<lparr>db_forum_channels :=
                   map (\<lambda>r. if gfc_id r = gfc_id forum_channel then forum_channel' else r)
                     (db_forum_channels s),
                 forum_channels := (forum_channels s)(gid \<mapsto> forum_channel')\<rparr>)
      | None \<Rightarrow>
          (let forum_channel' =
                 \<lparr>gfc_id = next_rowid (map gfc_id (db_forum_channels s)),
                  guild_id = gid, channel_id = cid\<rparr>
           in s\<lparr>db_forum_channels := db_forum_channels s @ [forum_channel'],
                 forum_channels := (forum_channels s)(gid \<mapsto> forum_channel')\<rparr>))"

definition get_forum_channel :: "ProblemThreadsManager \<Rightarrow> int \<Rightarrow> GuildForumChannel option" where
  "get_forum_channel s gid =
     (case forum_channels s gid of
        Some res \<Rightarrow> Some res
      | None \<Rightarrow> find (\<lambda>r. guild_id r = gid) (db_forum_channels s))"

definition get_thread_by_thread_id :: "ProblemThreadsManager \<Rightarrow> int \<Rightarrow> ProblemThreads option" where
  "get_thread_by_thread_id s tid =
     (case problem_threads s tid of
        Some res \<Rightarrow> Some res
      | None \<Rightarrow> find (\<lambda>t. thread_id t = tid) (db_problem_threads s))"

definition get_thread_by_problem_id ::
  "ProblemThreadsManager \<Rightarrow> pyval \<Rightarrow> int \<Rightarrow> ProblemThreads option" where
  "get_thread_by_problem_id s frontend_id gid =
     (case get_problem_with_frontend_id s frontend_id of
        None \<Rightarrow> None
      | Some problem \<Rightarrow>
          (case find (\<lambda>r. guild_id r = gid) (db_forum_channels s) of
             None \<Rightarrow> None
           | Some forum_channel \<Rightarrow>
               find (\<lambda>t. problem_db_id t = row_id problem
                          \<and> forum_channel_db_id t = gfc_id forum_channel)
                 (db_problem_threads s)))"

definition create_thread_instance ::
  "ProblemThreadsManager \<Rightarrow> pyval \<Rightarrow> int \<Rightarrow> int \<Rightarrow> error + ProblemThreads option" where
  "create_thread_instance s frontend_id gid tid =
     (case get_forum_channel s gid of
        None \<Rightarrow>
          Inl (ForumChannelNotFound
                 (''Forum channel for guild '' @ str_int gid @ '' not found.''))
      | Some forum_channel \<Rightarrow>
          (case get_problem_with_frontend_id s frontend_id of
             None \<Rightarrow> Inr None
           | Some problem \<Rightarrow>
               Inr (Some \<lparr>thread_id = tid, problem_db_id = row_id problem,
                          forum_channel_db_id = gfc_id forum_channel\<rparr>)))"

text \<open>
  \<^verbatim>\<open>create_thread_in_db\<close>. The insert fails on the unique index of
  \<^verbatim>\<open>thread_id\<close> (the index \<^verbatim>\<open>bulk_upsert_thread_to_db\<close> resolves conflicts on).
\<close>

definition create_thread_in_db ::
  "ProblemThreadsManager \<Rightarrow> pyval \<Rightarrow> int \<Rightarrow> int \<Rightarrow> (error + unit) \<times> ProblemThreadsManager" where
  "create_thread_in_db s frontend_id gid tid =
     (case create_thread_instance s frontend_id gid tid of
        Inl e \<Rightarrow> (Inl e, s)
      | Inr None \<Rightarrow> (Inl ValueError, s)
      | Inr (Some problem_threads_instance) \<Rightarrow>
          if tid \<in> set (map thread_id (db_problem_threads s)) then (Inl IntegrityError, s)
          else
            (let s1 = s\<lparr>db_problem_threads :=
                          db_problem_threads s @ [problem_threads_instance]\<rparr>
             in case get_thread_by_thread_id s1 tid of
                  None \<Rightarrow> (Inl AssertionError, s1)
                | Some problem_thread \<Rightarrow>
                    (Inr (),
                     s1\<lparr>problem_threads := (problem_threads s1)(tid \<mapsto> problem_thread)\<rparr>)))"

definition delete_thread_from_db :: "ProblemThreadsManager \<Rightarrow> int \<Rightarrow> ProblemThreadsManager" where
  "delete_thread_from_db s tid =
     (case find (\<lambda>t. thread_id t = tid) (db_problem_threads s) of
        None \<Rightarrow> s
      | Some problem_thread \<Rightarrow>
          s\<lparr>db_problem_threads := remove1 problem_thread (db_problem_threads s),
            problem_threads := (problem_threads s)(tid := None)\<rparr>)"

subsection \<open>core/problem_threads.py: the reconciler\<close>

definition canonical_tags :: "string list" where
  "canonical_tags = [''LeetCode'', ''Easy'', ''Medium'', ''Hard'']"

definition premium_disclaimer :: string where
  "premium_disclaimer = ''This problem is premium only, so there is no description available.''"

text \<open>
  The title \<^verbatim>\<open>f"{problem.problem_frontend_id}. {problem.title}"\<close> (line 229) and the
  body (lines 230 to 234): the URL and a newline, and the disclaimer when
  \<^verbatim>\<open>problem.premium\<close> holds. Each is built from reads of the instance, in the order
  the code makes them, and raises where a read raises.
\<close>

definition thread_name_of :: "ProblemRow \<Rightarrow> error + string" where
  "thread_name_of problem =
     (case read_problem_frontend_id problem of
        Inl e \<Rightarrow> Inl e
      | Inr frontend_id \<Rightarrow> Inr (py_str frontend_id @ ''. '' @ row_title problem))"

definition thread_content_of :: "ProblemRow \<Rightarrow> error + string" where
  "thread_content_of problem =
     (let thread_content = row_url problem @ [CHR 0x0A]
      in case read_premium problem of
           Inl e \<Rightarrow> Inl e
         | Inr flag \<Rightarrow>
             Inr (thread_content @ (if truthy flag then premium_disclaimer else [])))"

text \<open>
  The set difference of the four names and the names the channel offers; the loop over
  it runs in no fixed order in Python, here in the order the names are listed.
\<close>

definition tags_to_create :: "ForumTag list \<Rightarrow> string list" where
  "tags_to_create available =
     filter (\<lambda>nm. nm \<notin> set (map tag_name available)) canonical_tags"

text \<open>
  \<^verbatim>\<open>_create_thread\<close>. The log line at line 227 reads
  \<^verbatim>\<open>problem.problem_frontend_id\<close> first. \<open>available_tags ch\<close> is the list bound at
  line 238, before any tag is created; the applied tags are chosen from it at line 263.
  The external id is read once more for \<^verbatim>\<open>create_thread_in_db\<close> (line 266).
\<close>

definition create_thread ::
  "(int \<Rightarrow> ProblemDifficulity option) \<Rightarrow> ProblemThreadsManager \<Rightarrow> ForumChannel \<Rightarrow> ProblemRow
     \<Rightarrow> Bot \<Rightarrow> Guild \<Rightarrow> (error + ThreadWithMessage) \<times> ProblemThreadsManager \<times> Guild" where
  "create_thread from_db_repr s ch problem client guild =
     (case read_problem_frontend_id problem of
        Inl e \<Rightarrow> (Inl e, s, guild)
      | Inr _ \<Rightarrow>
     (case thread_name_of problem of
        Inl e \<Rightarrow> (Inl e, s, guild)
      | Inr thread_name \<Rightarrow>
     (case thread_content_of problem of
        Inl e \<Rightarrow> (Inl e, s, guild)
      | Inr thread_content \<Rightarrow>
     (case get_problem_desc_embed problem client of
        Inl e \<Rightarrow> (Inl e, s, guild)
      | Inr _ \<Rightarrow>
          (let available = available_tags ch
           in case create_tags guild ch (tags_to_create available) of
                (Inl e, guild1) \<Rightarrow> (Inl e, s, guild1)
              | (Inr _, guild1) \<Rightarrow>
                  (let tags_to_assign =
                         {''LeetCode'',
                          get_difficulty_str_repr from_db_repr (row_difficulty problem)}
                   in case forum_create_thread guild1 ch thread_name thread_content
                             (filter (\<lambda>tag. tag_name tag \<in> tags_to_assign) available) of
                        (Inl e, guild2) \<Rightarrow> (Inl e, s, guild2)
                      | (Inr thread, guild2) \<Rightarrow>
                          (case read_problem_frontend_id problem of
                             Inl e \<Rightarrow> (Inl e, s, guild2)
                           | Inr frontend_id \<Rightarrow>
                               (case create_thread_in_db s frontend_id (fc_guild_id ch)
                                       (th_id (twm_thread thread)) of
                                  (Inl e, s') \<Rightarrow> (Inl e, s', guild2)
                                | (Inr _, s') \<Rightarrow> (Inr thread, s', guild2)))))))))"

datatype ThreadCreationEnum = CREATE | REOPEN

datatype thread_ref = OfThreadWithMessage ThreadWithMessage | OfThread Thread

definition not_configured_message :: string where
  "not_configured_message =
     ''The bot doesn't know which Fourm Channel should the problem be created! Please use /set_thread_channel first to set the Fourm Channel!''"

definition channel_invalid_message :: string where
  "channel_invalid_message =
     ''Something went wrong! The forum channel is not found or not a valid forum channel. Contact the developer for help.''"

text \<open>The two places that create a thread and return \<^verbatim>\<open>CREATE\<close> (lines 317 and 333).\<close>

definition create_and_return ::
  "(int \<Rightarrow> ProblemDifficulity option) \<Rightarrow> ProblemThreadsManager \<Rightarrow> ForumChannel \<Rightarrow> ProblemRow
     \<Rightarrow> Bot \<Rightarrow> Guild
     \<Rightarrow> (error + thread_ref \<times> ThreadCreationEnum) \<times> ProblemThreadsManager \<times> Guild" where
  "create_and_return from_db_repr s ch problem client guild =
     (case create_thread from_db_repr s ch problem client guild of
        (Inl e, s', guild') \<Rightarrow> (Inl e, s', guild')
      | (Inr thread, s', guild') \<Rightarrow> (Inr (OfThreadWithMessage thread, CREATE), s', guild'))"

text \<open>
  \<^verbatim>\<open>reopen_or_create_problem_thread\<close>. \<^verbatim>\<open>is_daily\<close> only words the log (line 307
  reads \<^verbatim>\<open>problem_obj.id\<close>, which the class declares). After the two channel checks,
  line 309 reads \<^verbatim>\<open>problem_obj.problem_frontend_id\<close> for the lookup of the recorded
  thread.
\<close>

definition reopen_or_create_problem_thread ::
  "(int \<Rightarrow> ProblemDifficulity option) \<Rightarrow> ProblemThreadsManager \<Rightarrow> ProblemRow \<Rightarrow> Guild \<Rightarrow> Bot
     \<Rightarrow> bool
     \<Rightarrow> (error + thread_ref \<times> ThreadCreationEnum) \<times> ProblemThreadsManager \<times> Guild" where
  "reopen_or_create_problem_thread from_db_repr s problem_obj guild client is_daily =
     (case get_forum_channel s (g_id guild) of
        None \<Rightarrow> (Inl (ForumChannelNotFound not_configured_message), s, guild)
      | Some ch \<Rightarrow>
          (case try_get_channel guild (channel_id ch) of
             Some (ForumChannelObj forum_channel) \<Rightarrow>
               (case read_problem_frontend_id problem_obj of
                  Inl e \<Rightarrow> (Inl e, s, guild)
                | Inr frontend_id \<Rightarrow>
                    (case get_thread_by_problem_id s frontend_id (g_id guild) of
                       None \<Rightarrow>
                         create_and_return from_db_repr s forum_channel problem_obj client guild
                     | Some forum_thread \<Rightarrow>
                         (case try_get_channel guild (thread_id forum_thread) of
                            None \<Rightarrow>
                              create_and_return from_db_repr
                                (delete_thread_from_db s (thread_id forum_thread))
                                forum_channel problem_obj client guild
                          | Some (ThreadObj thread_channel) \<Rightarrow>
                              (Inr (OfThread thread_channel, REOPEN), s, guild)
                          | Some _ \<Rightarrow> (Inl AssertionError, s, guild))))
           | _ \<Rightarrow> (Inl (ForumChannelNotFound channel_invalid_message), s, guild)))"

subsection \<open>Invariants of the registry\<close>

text \<open>
  The unique constraints of the two tables: the primary key and the guild id of a forum
  channel row, the thread id of a thread row.
\<close>

definition schema_ok :: "ProblemThreadsManager \<Rightarrow> bool" where
  "schema_ok s =
     (distinct (map gfc_id (db_forum_channels s))
      \<and> distinct (map guild_id (db_forum_channels s))
      \<and> distinct (map thread_id (db_problem_threads s)))"

text \<open>Every entry of a dictionary is a row of its table, stored under the row's key.\<close>

definition cache_agrees :: "ProblemThreadsManager \<Rightarrow> bool" where
  "cache_agrees s =
     ((\<forall>g r. forum_channels s g = Some r \<longrightarrow> r \<in> set (db_forum_channels s) \<and> guild_id r = g)
      \<and> (\<forall>t r. problem_threads s t = Some r \<longrightarrow>
                  r \<in> set (db_problem_threads s) \<and> thread_id r = t))"

subsection \<open>A worked example: Two Sum in guild 42\<close>

text \<open>
  The example of the spec: the problem with external id 1 as an instance of the class
  as declared, the guild 42 whose forum channel is the channel 100, and the thread 500
  opened for the problem there.
\<close>

definition two_sum :: ProblemRow where
  "two_sum =
     \<lparr>row_id = 7, row_title = ''Two Sum'', row_problem_id = 1,
      row_url = ''https://leetcode.com/problems/two-sum/'', row_difficulty = 1,
      row_description = None\<rparr>"

definition example_from_db_repr :: "int \<Rightarrow> ProblemDifficulity option" where
  "example_from_db_repr d =
     (if d = 1 then Some Easy else if d = 2 then Some Medium
      else if d = 3 then Some Hard else None)"

definition example_bot :: Bot where
  "example_bot =
     \<lparr>bot_user = Some \<lparr>user_name = ''LeetCodeBot'', avatar = Some ''bot.png''\<rparr>,
      dev_user = Some \<lparr>user_name = ''dev'', avatar = Some ''dev.png''\<rparr>\<rparr>"

definition example_lookup :: "pyval \<Rightarrow> ProblemRow option" where
  "example_lookup v = (if v = PyInt 1 then Some two_sum else None)"

definition forum_row :: GuildForumChannel where
  "forum_row = \<lparr>gfc_id = 1, guild_id = 42, channel_id = 100\<rparr>"

definition thread_row :: ProblemThreads where
  "thread_row = \<lparr>thread_id = 500, problem_db_id = 7, forum_channel_db_id = 1\<rparr>"

text \<open>No forum channel set for any guild.\<close>

definition registry_empty :: ProblemThreadsManager where
  "registry_empty =
     \<lparr>db_forum_channels = [], db_problem_threads = [], problem_threads = Map.empty,
      forum_channels = Map.empty, get_problem_with_frontend_id = example_lookup\<rparr>"

text \<open>The forum channel of guild 42 set, no thread recorded.\<close>

definition registry_configured :: ProblemThreadsManager where
  "registry_configured =
     \<lparr>db_forum_channels = [forum_row], db_problem_threads = [],
      problem_threads = Map.empty, forum_channels = [42 \<mapsto> forum_row],
      get_problem_with_frontend_id = example_lookup\<rparr>"

text \<open>The thread 500 recorded for Two Sum in guild 42.\<close>

definition registry_recorded :: ProblemThreadsManager where
  "registry_recorded =
     \<lparr>db_forum_channels = [forum_row], db_problem_threads = [thread_row],
      problem_threads = [500 \<mapsto> thread_row], forum_channels = [42 \<mapsto> forum_row],
      get_problem_with_frontend_id = example_lookup\<rparr>"

text \<open>The thread 500 in the dictionary only, with no row in the table.\<close>

definition registry_cache_only :: ProblemThreadsManager where
  "registry_cache_only =
     \<lparr>db_forum_channels = [forum_row], db_problem_threads = [],
      problem_threads = [500 \<mapsto> thread_row], forum_channels = [42 \<mapsto> forum_row],
      get_problem_with_frontend_id = example_lookup\<rparr>"

definition four_tags :: "ForumTag list" where
  "four_tags =
     [\<lparr>tag_id = 201, tag_name = ''LeetCode''\<rparr>, \<lparr>tag_id = 202, tag_name = ''Easy''\<rparr>,
      \<lparr>tag_id = 203, tag_name = ''Medium''\<rparr>, \<lparr>tag_id = 204, tag_name = ''Hard''\<rparr>]"

definition two_sum_thread :: thread_info where
  "two_sum_thread =
     \<lparr>ti_name = ''1. Two Sum'', ti_parent_id = 100,
      ti_applied_tags =
        [\<lparr>tag_id = 201, tag_name = ''LeetCode''\<rparr>, \<lparr>tag_id = 202, tag_name = ''Easy''\<rparr>],
      ti_content = ''https://leetcode.com/problems/two-sum/'' @ [CHR 0x0A]\<rparr>"

text \<open>A forum channel that offers no tag yet.\<close>

definition guild_fresh :: Guild where
  "guild_fresh = \<lparr>g_id = 42, channels = [100 \<mapsto> Forum []], next_snowflake = 1000\<rparr>"

text \<open>The forum channel with the four tags, and the thread 500 live.\<close>

definition guild_live :: Guild where
  "guild_live =
     \<lparr>g_id = 42, channels = [100 \<mapsto> Forum four_tags, 500 \<mapsto> Thr two_sum_thread],
      next_snowflake = 1000\<rparr>"

text \<open>The forum channel with the four tags, the thread 500 gone.\<close>

definition guild_stale :: Guild where
  "guild_stale = \<lparr>g_id = 42, channels = [100 \<mapsto> Forum four_tags], next_snowflake = 1000\<rparr>"

text \<open>The channel 100 is no forum channel any more.\<close>

definition guild_drifted :: Guild where
  "guild_drifted = \<lparr>g_id = 42, channels = [100 \<mapsto> Other], next_snowflake = 1000\<rparr>"

section \<open>Properties\<close>

text \<open>
  C10. \<^verbatim>\<open>parse_problem_desc\<close>, for a preview length that is not negative: the empty
  content gives "No description available."; a content of at most \<open>preview_len\<close>
  characters comes back unchanged; a longer one gives its first \<open>preview_len\<close>
  characters followed by "...".
\<close>

theorem parse_problem_desc_cases:
  "0 \<le> preview_len \<Longrightarrow>
   parse_problem_desc preview_len content =
     (if content = [] then ''No description available.''
      else if int (length content) \<le> preview_len then content
      else take (nat preview_len) content @ ''...'')"
  by (simp add: parse_problem_desc_def slice_to_def)

theorem parse_problem_desc_cases_witness:
  "parse_problem_desc 5 ''abcdefgh'' = ''abcde...''
   \<and> parse_problem_desc 5 ''abc'' = ''abc''
   \<and> parse_problem_desc 5 [] = ''No description available.''"
  using parse_problem_desc_cases [of 5 "''abcdefgh''"]
        parse_problem_desc_cases [of 5 "''abc''"]
        parse_problem_desc_cases [of 5 "[]"]
  by simp

text \<open>
  C9. On the ready event the weekly refresh task is started exactly when debug mode is
  off and the task is not running; the listener never raises, and in debug mode it
  leaves the task as it is.
\<close>

theorem on_ready_starts_iff:
  "\<exists>l'. on_ready debug l = Inr l'
        \<and> (starts l' = starts l + 1) = (\<not> debug \<and> \<not> running l)
        \<and> (starts l' = starts l) = (debug \<or> running l)
        \<and> (running l' = (running l \<or> \<not> debug))
        \<and> (debug \<longrightarrow> l' = l)"
  by (simp add: on_ready_def is_running_def start_def)

theorem on_ready_starts_iff_witness:
  "on_ready True \<lparr>running = False, starts = 0\<rparr> = Inr \<lparr>running = False, starts = 0\<rparr>
   \<and> on_ready False \<lparr>running = False, starts = 0\<rparr> = Inr \<lparr>running = True, starts = 1\<rparr>"
  using on_ready_starts_iff [of True "\<lparr>running = False, starts = 0\<rparr>"]
        on_ready_starts_iff [of False "\<lparr>running = False, starts = 0\<rparr>"]
  by (auto simp: on_ready_def is_running_def start_def)

text \<open>
  C6. On an instance of the class \<^verbatim>\<open>Problem\<close> as \<^verbatim>\<open>db/problem.py\<close> declares it, the
  read of the external id under the name \<^verbatim>\<open>problem_frontend_id\<close> and the read of
  \<^verbatim>\<open>premium\<close>, both made by \<^verbatim>\<open>_create_thread\<close>, raise \<^verbatim>\<open>AttributeError\<close>: the
  class maps the external id as \<^verbatim>\<open>problem_id\<close> and maps no premium flag.
\<close>

theorem Problem_reads_raise:
  "read_problem_frontend_id r = Inl (AttributeError ''problem_frontend_id'')
   \<and> read_premium r = Inl (AttributeError ''premium'')"
  by (simp add: read_problem_frontend_id_def read_premium_def getattr_def Problem_instance_def)

text \<open>
  C3. For a guild with no forum channel, neither in the dictionary nor in the table, the
  reconciler raises \<^verbatim>\<open>ForumChannelNotFound\<close> with the "not configured" message, and
  the manager, its tables and dictionaries, and the platform are as before.
\<close>

theorem reconcile_not_configured:
  "forum_channels s (g_id guild) = None \<Longrightarrow>
   find (\<lambda>r. guild_id r = g_id guild) (db_forum_channels s) = None \<Longrightarrow>
   reopen_or_create_problem_thread from_db_repr s problem guild client is_daily =
     (Inl (ForumChannelNotFound not_configured_message), s, guild)"
  by (simp add: reopen_or_create_problem_thread_def get_forum_channel_def)

theorem reconcile_not_configured_witness:
  "reopen_or_create_problem_thread example_from_db_repr registry_empty two_sum guild_fresh
     example_bot False =
     (Inl (ForumChannelNotFound not_configured_message), registry_empty, guild_fresh)"
proof -
  have h1: "forum_channels registry_empty (g_id guild_fresh) = None"
    by (simp add: registry_empty_def)
  have h2: "find (\<lambda>r. guild_id r = g_id guild_fresh) (db_forum_channels registry_empty) = None"
    by (simp add: registry_empty_def)
  show ?thesis by (rule reconcile_not_configured [OF h1 h2])
qed

text \<open>
  C5. When the configured channel id resolves to nothing or to a channel that is no
  forum channel, the reconciler raises \<^verbatim>\<open>ForumChannelNotFound\<close> with the "channel
  invalid" message, an error value other than the one raised when no channel is set,
  and changes nothing.
\<close>

theorem reconcile_channel_invalid:
  "get_forum_channel s (g_id guild) = Some ch \<Longrightarrow>
   (\<forall>tags. channels guild (channel_id ch) \<noteq> Some (Forum tags)) \<Longrightarrow>
   reopen_or_create_problem_thread from_db_repr s problem guild client is_daily =
     (Inl (ForumChannelNotFound channel_invalid_message), s, guild)
   \<and> ForumChannelNotFound channel_invalid_message \<noteq> ForumChannelNotFound not_configured_message"
  by (auto simp: reopen_or_create_problem_thread_def try_get_channel_def
        channel_invalid_message_def not_configured_message_def
      split: option.splits channel.splits channel_obj.splits)

theorem reconcile_channel_invalid_witness:
  "reopen_or_create_problem_thread example_from_db_repr registry_configured two_sum
     guild_drifted example_bot False =
     (Inl (ForumChannelNotFound channel_invalid_message), registry_configured, guild_drifted)
   \<and> reopen_or_create_problem_thread example_from_db_repr registry_configured two_sum
     (guild_drifted\<lparr>channels := Map.empty\<rparr>) example_bot False =
     (Inl (ForumChannelNotFound channel_invalid_message), registry_configured,
      guild_drifted\<lparr>channels := Map.empty\<rparr>)"
proof -
  have h1: "get_forum_channel registry_configured (g_id guild_drifted) = Some forum_row"
    by (simp add: get_forum_channel_def registry_configured_def guild_drifted_def)
  have h2: "\<forall>tags. channels guild_drifted (channel_id forum_row) \<noteq> Some (Forum tags)"
    by (simp add: guild_drifted_def forum_row_def)
  have h3: "get_forum_channel registry_configured (g_id (guild_drifted\<lparr>channels := Map.empty\<rparr>))
              = Some forum_row"
    by (simp add: get_forum_channel_def registry_configured_def guild_drifted_def)
  have h4: "\<forall>tags. channels (guild_drifted\<lparr>channels := Map.empty\<rparr>) (channel_id forum_row)
              \<noteq> Some (Forum tags)"
    by simp
  show ?thesis
    using reconcile_channel_invalid [OF h1 h2] reconcile_channel_invalid [OF h3 h4]
    by simp
qed

subsection \<open>The reconciler on an instance of the class as declared\<close>

lemma reconcile_raises_at_read:
  "get_forum_channel s (g_id guild) = Some ch \<Longrightarrow>
   channels guild (channel_id ch) = Some (Forum tags) \<Longrightarrow>
   reopen_or_create_problem_thread from_db_repr s problem guild client is_daily =
     (Inl (AttributeError ''problem_frontend_id''), s, guild)"
  by (simp add: reopen_or_create_problem_thread_def try_get_channel_def
        read_problem_frontend_id_def getattr_def Problem_instance_def)

text \<open>
  C1. With the forum channel of guild 42 live and the thread 500, recorded for Two Sum,
  live on the platform, the reconciler does not return the thread with \<^verbatim>\<open>REOPEN\<close>:
  the read of \<^verbatim>\<open>problem_frontend_id\<close> at line 309 raises \<^verbatim>\<open>AttributeError\<close>, as it
  does on every instance of the class as declared. The registry and the platform are as
  before.
\<close>

theorem reconcile_raises_on_live_thread:
  "get_forum_channel registry_recorded (g_id guild_live) = Some forum_row
   \<and> channels guild_live (channel_id forum_row) = Some (Forum four_tags)
   \<and> find (\<lambda>t. problem_db_id t = row_id two_sum \<and> forum_channel_db_id t = gfc_id forum_row)
         (db_problem_threads registry_recorded) = Some thread_row
   \<and> channels guild_live (thread_id thread_row) = Some (Thr two_sum_thread)
   \<and> reopen_or_create_problem_thread example_from_db_repr registry_recorded two_sum
         guild_live example_bot False =
       (Inl (AttributeError ''problem_frontend_id''), registry_recorded, guild_live)"
proof -
  have h1: "get_forum_channel registry_recorded (g_id guild_live) = Some forum_row"
    by (simp add: get_forum_channel_def registry_recorded_def guild_live_def)
  have h2: "channels guild_live (channel_id forum_row) = Some (Forum four_tags)"
    by (simp add: guild_live_def forum_row_def)
  have h3: "find (\<lambda>t. problem_db_id t = row_id two_sum \<and> forum_channel_db_id t = gfc_id forum_row)
              (db_problem_threads registry_recorded) = Some thread_row"
    by (simp add: registry_recorded_def thread_row_def two_sum_def forum_row_def)
  have h4: "channels guild_live (thread_id thread_row) = Some (Thr two_sum_thread)"
    by (simp add: guild_live_def thread_row_def)
  show ?thesis
    using h1 h2 h3 h4 reconcile_raises_at_read [OF h1 h2] by simp
qed

text \<open>
  C2. With the forum channel of guild 42 live and the thread 500, recorded for Two Sum,
  gone from the platform, the reconciler neither deletes the stale record nor creates a
  thread nor returns \<^verbatim>\<open>CREATE\<close>: the read of \<^verbatim>\<open>problem_frontend_id\<close> at line 309
  raises \<^verbatim>\<open>AttributeError\<close> before the recorded thread is looked up. The record stays
  in the table and in the dictionary, and the platform is as before.
\<close>

theorem reconcile_keeps_stale_record:
  "get_forum_channel registry_recorded (g_id guild_stale) = Some forum_row
   \<and> channels guild_stale (channel_id forum_row) = Some (Forum four_tags)
   \<and> channels guild_stale (thread_id thread_row) = None
   \<and> thread_row \<in> set (db_problem_threads registry_recorded)
   \<and> problem_threads registry_recorded (thread_id thread_row) = Some thread_row
   \<and> reopen_or_create_problem_thread example_from_db_repr registry_recorded two_sum
         guild_stale example_bot False =
       (Inl (AttributeError ''problem_frontend_id''), registry_recorded, guild_stale)"
proof -
  have h1: "get_forum_channel registry_recorded (g_id guild_stale) = Some forum_row"
    by (simp add: get_forum_channel_def registry_recorded_def guild_stale_def)
  have h2: "channels guild_stale (channel_id forum_row) = Some (Forum four_tags)"
    by (simp add: guild_stale_def forum_row_def)
  have h3: "channels guild_stale (thread_id thread_row) = None"
    by (simp add: guild_stale_def thread_row_def)
  have h4: "thread_row \<in> set (db_problem_threads registry_recorded)"
    by (simp add: registry_recorded_def)
  have h5: "problem_threads registry_recorded (thread_id thread_row) = Some thread_row"
    by (simp add: registry_recorded_def thread_row_def)
  show ?thesis
    using h1 h2 h3 h4 h5 reconcile_raises_at_read [OF h1 h2] by simp
qed

text \<open>
  C4. With the forum channel of guild 42 live and offering no tag yet, and no thread
  recorded for Two Sum, the reconciler creates no tag and no thread: the read of
  \<^verbatim>\<open>problem_frontend_id\<close> at line 309 raises \<^verbatim>\<open>AttributeError\<close>, and the channel
  still offers no tag.
\<close>

theorem reconcile_creates_no_tags:
  "get_forum_channel registry_configured (g_id guild_fresh) = Some forum_row
   \<and> channels guild_fresh (channel_id forum_row) = Some (Forum [])
   \<and> db_problem_threads registry_configured = []
   \<and> reopen_or_create_problem_thread example_from_db_repr registry_configured two_sum
         guild_fresh example_bot False =
       (Inl (AttributeError ''problem_frontend_id''), registry_configured, guild_fresh)"
proof -
  have h1: "get_forum_channel registry_configured (g_id guild_fresh) = Some forum_row"
    by (simp add: get_forum_channel_def registry_configured_def guild_fresh_def)
  have h2: "channels guild_fresh (channel_id forum_row) = Some (Forum [])"
    by (simp add: guild_fresh_def forum_row_def)
  have h3: "db_problem_threads registry_configured = []"
    by (simp add: registry_configured_def)
  show ?thesis
    using h1 h2 h3 reconcile_raises_at_read [OF h1 h2] by simp
qed

text \<open>
  C7. For every problem, \<^verbatim>\<open>_create_thread\<close> creates no thread: its first read of
  \<^verbatim>\<open>problem_frontend_id\<close> (line 227) raises \<^verbatim>\<open>AttributeError\<close> and leaves registry
  and platform as they were; the title (line 229) raises on the same read, and the body
  raises on the read of \<^verbatim>\<open>premium\<close> (line 231).
\<close>

theorem create_thread_raises:
  "create_thread from_db_repr s ch problem client guild =
     (Inl (AttributeError ''problem_frontend_id''), s, guild)
   \<and> thread_name_of problem = Inl (AttributeError ''problem_frontend_id'')
   \<and> thread_content_of problem = Inl (AttributeError ''premium'')"
  by (simp add: create_thread_def thread_name_of_def thread_content_of_def
        read_problem_frontend_id_def read_premium_def getattr_def Problem_instance_def)

subsection \<open>Lists and rows\<close>

lemma find_Some_mem: "find P xs = Some x \<Longrightarrow> x \<in> set xs \<and> P x"
  by (induction xs) (auto split: if_splits)

lemma find_append_miss:
  "find P xs = None \<Longrightarrow> find P (xs @ ys) = find P ys"
  by (induction xs) (auto split: if_splits)

lemma distinct_map_remove1:
  "distinct (map f xs) \<Longrightarrow> distinct (map f (remove1 x xs))"
  by (induction xs) (auto simp: image_iff dest: notin_set_remove1)

lemma foldr_max_ge: "i \<in> set ids \<Longrightarrow> i \<le> foldr max ids (0::int)"
  by (induction ids) auto

lemma next_rowid_fresh: "i \<in> set ids \<Longrightarrow> i < next_rowid ids"
  using foldr_max_ge [of i ids] by (simp add: next_rowid_def)

lemma key_inj:
  "distinct (map k xs) \<Longrightarrow> x \<in> set xs \<Longrightarrow> y \<in> set xs \<Longrightarrow> k x = k y \<Longrightarrow> x = y"
  by (auto simp: distinct_map dest: inj_onD)

lemma map_update_other:
  assumes "distinct (map k xs)" and "x \<in> set xs" and "g x' = g x"
  shows "map g (map (\<lambda>r. if k r = k x then x' else r) xs) = map g xs"
proof -
  have "map g (map (\<lambda>r. if k r = k x then x' else r) xs)
          = map (\<lambda>r. g (if k r = k x then x' else r)) xs"
    by simp
  also have "\<dots> = map g xs"
  proof (rule map_cong [OF refl])
    fix r assume "r \<in> set xs"
    then show "g (if k r = k x then x' else r) = g r"
      using assms key_inj [of k xs r x] by auto
  qed
  finally show ?thesis .
qed

lemma distinct_map_update:
  assumes "distinct (map k xs)" and "x \<in> set xs" and "g x' = g x" and "distinct (map g xs)"
  shows "distinct (map g (map (\<lambda>r. if k r = k x then x' else r) xs))"
  by (subst map_update_other [OF assms(1,2,3)]) (rule assms(4))

lemma set_map_update:
  "distinct (map k xs) \<Longrightarrow> x \<in> set xs \<Longrightarrow>
   set (map (\<lambda>r. if k r = k x then x' else r) xs) = insert x' (set xs - {x})"
  by (induction xs) (auto simp: image_iff)

lemma add_forum_channel_schema:
  assumes "schema_ok s"
  shows "schema_ok (add_forum_channel_to_db s gid cid)"
proof (cases "find (\<lambda>r. guild_id r = gid) (db_forum_channels s)")
  case None
  then have "gid \<notin> guild_id ` set (db_forum_channels s)"
    by (auto simp: find_None_iff)
  moreover have "next_rowid (map gfc_id (db_forum_channels s)) \<notin> gfc_id ` set (db_forum_channels s)"
    using next_rowid_fresh [of _ "map gfc_id (db_forum_channels s)"] by fastforce
  ultimately show ?thesis
    using assms None by (simp add: add_forum_channel_to_db_def schema_ok_def Let_def)
next
  case (Some fc)
  then have mem: "fc \<in> set (db_forum_channels s)" by (simp add: find_Some_mem)
  have d: "distinct (map gfc_id (db_forum_channels s))" using assms by (simp add: schema_ok_def)
  have d2: "distinct (map guild_id (db_forum_channels s))" using assms by (simp add: schema_ok_def)
  have "distinct (map gfc_id (map (\<lambda>r. if gfc_id r = gfc_id fc then fc\<lparr>channel_id := cid\<rparr> else r)
                    (db_forum_channels s)))"
    by (rule distinct_map_update [OF d mem _ d]) simp
  moreover
  have "distinct (map guild_id (map (\<lambda>r. if gfc_id r = gfc_id fc then fc\<lparr>channel_id := cid\<rparr> else r)
                    (db_forum_channels s)))"
    by (rule distinct_map_update [OF d mem _ d2]) simp
  ultimately show ?thesis
    using assms Some
    by (simp add: add_forum_channel_to_db_def schema_ok_def Let_def del: map_map)
qed

lemma add_forum_channel_cache:
  assumes "schema_ok s" and "cache_agrees s"
  shows "cache_agrees (add_forum_channel_to_db s gid cid)"
proof (cases "find (\<lambda>r. guild_id r = gid) (db_forum_channels s)")
  case None
  then show ?thesis
    using assms by (auto simp: add_forum_channel_to_db_def cache_agrees_def Let_def)
next
  case (Some fc)
  then have mem: "fc \<in> set (db_forum_channels s)" and g: "guild_id fc = gid"
    by (auto dest: find_Some_mem)
  have d: "distinct (map gfc_id (db_forum_channels s))" using assms by (simp add: schema_ok_def)
  show ?thesis
    using assms Some g set_map_update [OF d mem, of "fc\<lparr>channel_id := cid\<rparr>"]
    by (auto simp: add_forum_channel_to_db_def cache_agrees_def Let_def)
qed

lemma add_forum_channel_written:
  assumes "schema_ok s"
  shows "\<exists>row. forum_channels (add_forum_channel_to_db s gid cid) gid = Some row
           \<and> row \<in> set (db_forum_channels (add_forum_channel_to_db s gid cid))
           \<and> guild_id row = gid \<and> channel_id row = cid"
proof (cases "find (\<lambda>r. guild_id r = gid) (db_forum_channels s)")
  case None
  then show ?thesis by (simp add: add_forum_channel_to_db_def Let_def)
next
  case (Some fc)
  then have mem: "fc \<in> set (db_forum_channels s)" and g: "guild_id fc = gid"
    by (auto dest: find_Some_mem)
  have d: "distinct (map gfc_id (db_forum_channels s))" using assms by (simp add: schema_ok_def)
  show ?thesis
    using Some g set_map_update [OF d mem, of "fc\<lparr>channel_id := cid\<rparr>"]
    by (simp add: add_forum_channel_to_db_def Let_def)
qed

lemma delete_thread_schema:
  "schema_ok s \<Longrightarrow> schema_ok (delete_thread_from_db s tid)"
  by (auto simp: delete_thread_from_db_def schema_ok_def distinct_map_remove1
      split: option.splits)

lemma delete_thread_cache:
  assumes "cache_agrees s"
  shows "cache_agrees (delete_thread_from_db s tid)"
proof (cases "find (\<lambda>t. thread_id t = tid) (db_problem_threads s)")
  case None
  then show ?thesis using assms by (simp add: delete_thread_from_db_def)
next
  case (Some pt)
  then have k: "thread_id pt = tid" by (auto dest: find_Some_mem)
  have "r \<in> set (remove1 pt (db_problem_threads s)) \<and> thread_id r = t"
    if "problem_threads s t = Some r" and "t \<noteq> tid" for t r
  proof -
    from that assms have "r \<in> set (db_problem_threads s)" and "thread_id r = t"
      by (auto simp: cache_agrees_def)
    moreover from this that k have "r \<noteq> pt" by auto
    ultimately show ?thesis by simp
  qed
  then show ?thesis
    using assms Some by (auto simp: delete_thread_from_db_def cache_agrees_def)
qed

lemma delete_thread_gone:
  assumes "schema_ok s"
  shows "tid \<notin> thread_id ` set (db_problem_threads (delete_thread_from_db s tid))"
proof (cases "find (\<lambda>t. thread_id t = tid) (db_problem_threads s)")
  case None
  then have "delete_thread_from_db s tid = s"
    by (simp add: delete_thread_from_db_def)
  then show ?thesis
    using None by (auto simp: find_None_iff)
next
  case (Some pt)
  then have mem: "pt \<in> set (db_problem_threads s)" and k: "thread_id pt = tid"
    by (auto dest: find_Some_mem)
  have d: "distinct (map thread_id (db_problem_threads s))"
    using assms by (simp add: schema_ok_def)
  then have d': "distinct (db_problem_threads s)"
    by (auto simp: distinct_map)
  have "\<And>r. r \<in> set (db_problem_threads s) \<Longrightarrow> thread_id r = tid \<Longrightarrow> r = pt"
    using key_inj [OF d _ mem] k by auto
  then show ?thesis
    using Some d' by (auto simp: delete_thread_from_db_def)
qed

lemma delete_thread_uncached:
  assumes "cache_agrees s"
  shows "problem_threads (delete_thread_from_db s tid) tid = None"
proof (cases "find (\<lambda>t. thread_id t = tid) (db_problem_threads s)")
  case None
  then have "tid \<notin> thread_id ` set (db_problem_threads s)"
    by (auto simp: find_None_iff)
  moreover have "r \<in> set (db_problem_threads s) \<and> thread_id r = tid"
    if "problem_threads s tid = Some r" for r
    using assms that unfolding cache_agrees_def by blast
  ultimately have "problem_threads s tid = None"
    by (cases "problem_threads s tid") auto
  then show ?thesis using None by (simp add: delete_thread_from_db_def)
next
  case (Some pt)
  then show ?thesis by (simp add: delete_thread_from_db_def)
qed

subsection \<open>The registry operations and the two invariants\<close>

lemma create_thread_in_db_unfold:
  assumes "cache_agrees s"
  shows "create_thread_in_db s fid gid tid =
     (case get_forum_channel s gid of
        None \<Rightarrow> (Inl (ForumChannelNotFound
                       (''Forum channel for guild '' @ str_int gid @ '' not found.'')), s)
      | Some fc \<Rightarrow>
          (case get_problem_with_frontend_id s fid of
             None \<Rightarrow> (Inl ValueError, s)
           | Some p \<Rightarrow>
               if tid \<in> thread_id ` set (db_problem_threads s) then (Inl IntegrityError, s)
               else (Inr (),
                     s\<lparr>db_problem_threads := db_problem_threads s
                           @ [\<lparr>thread_id = tid, problem_db_id = row_id p,
                               forum_channel_db_id = gfc_id fc\<rparr>],
                       problem_threads := (problem_threads s)(tid \<mapsto>
                           \<lparr>thread_id = tid, problem_db_id = row_id p,
                            forum_channel_db_id = gfc_id fc\<rparr>)\<rparr>)))"
proof (cases "tid \<in> thread_id ` set (db_problem_threads s)")
  case True
  then show ?thesis
    by (auto simp: create_thread_in_db_def create_thread_instance_def split: option.splits)
next
  case False
  have "r \<in> set (db_problem_threads s) \<and> thread_id r = tid"
    if "problem_threads s tid = Some r" for r
    using assms that unfolding cache_agrees_def by blast
  with False have miss: "problem_threads s tid = None"
    by (cases "problem_threads s tid") auto
  from False have "find (\<lambda>t. thread_id t = tid) (db_problem_threads s) = None"
    by (auto simp: find_None_iff)
  then have hit: "find (\<lambda>t. thread_id t = tid) (db_problem_threads s @ [row]) = Some row"
    if "thread_id row = tid" for row
    using that by (simp add: find_append_miss)
  show ?thesis
    using False miss hit
    by (auto simp: create_thread_in_db_def create_thread_instance_def
          get_thread_by_thread_id_def Let_def split: option.splits)
qed

lemma create_thread_in_db_inv:
  assumes "schema_ok s" and "cache_agrees s"
    and "create_thread_in_db s fid gid tid = (r, s')"
  shows "schema_ok s' \<and> cache_agrees s'
         \<and> (case r of
              Inr _ \<Rightarrow> (\<exists>row. problem_threads s' tid = Some row
                              \<and> row \<in> set (db_problem_threads s') \<and> thread_id row = tid)
            | Inl e \<Rightarrow> s' = s)"
  using assms(1,2) assms(3) [unfolded create_thread_in_db_unfold [OF assms(2)]]
  by (auto simp: schema_ok_def cache_agrees_def split: option.splits if_splits)

text \<open>
  C8, as the code has it. On a registry that meets the unique constraints and whose
  dictionaries agree with the tables, each of the three mutating operations writes the
  table and then the dictionary, keeps both invariants, and leaves the written row (or
  the deletion) in both; \<^verbatim>\<open>create_thread_in_db\<close> changes nothing when it raises.
  \<^verbatim>\<open>get_forum_channel\<close> and \<^verbatim>\<open>get_thread_by_thread_id\<close> answer from the dictionary
  when it has the key, whatever the table holds, and from the table otherwise;
  \<^verbatim>\<open>get_thread_by_problem_id\<close> reads the tables only, whatever the dictionaries hold.
\<close>

theorem registry_write_through:
  assumes "schema_ok s" and "cache_agrees s"
  shows
   "(schema_ok (add_forum_channel_to_db s gid cid)
       \<and> cache_agrees (add_forum_channel_to_db s gid cid)
       \<and> (\<exists>row. forum_channels (add_forum_channel_to_db s gid cid) gid = Some row
              \<and> row \<in> set (db_forum_channels (add_forum_channel_to_db s gid cid))
              \<and> guild_id row = gid \<and> channel_id row = cid))
    \<and> (case create_thread_in_db s fid gid tid of
          (Inr _, s') \<Rightarrow>
            schema_ok s' \<and> cache_agrees s'
            \<and> (\<exists>row. problem_threads s' tid = Some row
                   \<and> row \<in> set (db_problem_threads s') \<and> thread_id row = tid)
        | (Inl e, s') \<Rightarrow> s' = s)
    \<and> (schema_ok (delete_thread_from_db s tid)
       \<and> cache_agrees (delete_thread_from_db s tid)
       \<and> tid \<notin> thread_id ` set (db_problem_threads (delete_thread_from_db s tid))
       \<and> problem_threads (delete_thread_from_db s tid) tid = None)
    \<and> (\<forall>r rows. forum_channels s gid = Some r \<longrightarrow>
          get_forum_channel (s\<lparr>db_forum_channels := rows\<rparr>) gid = Some r)
    \<and> (forum_channels s gid = None \<longrightarrow>
          get_forum_channel s gid = find (\<lambda>r. guild_id r = gid) (db_forum_channels s))
    \<and> (\<forall>r rows. problem_threads s tid = Some r \<longrightarrow>
          get_thread_by_thread_id (s\<lparr>db_problem_threads := rows\<rparr>) tid = Some r)
    \<and> (problem_threads s tid = None \<longrightarrow>
          get_thread_by_thread_id s tid = find (\<lambda>t. thread_id t = tid) (db_problem_threads s))
    \<and> (\<forall>c1 c2. get_thread_by_problem_id (s\<lparr>problem_threads := c1, forum_channels := c2\<rparr>) fid gid
          = get_thread_by_problem_id s fid gid)"
proof -
  have a: "schema_ok (add_forum_channel_to_db s gid cid)
       \<and> cache_agrees (add_forum_channel_to_db s gid cid)
       \<and> (\<exists>row. forum_channels (add_forum_channel_to_db s gid cid) gid = Some row
              \<and> row \<in> set (db_forum_channels (add_forum_channel_to_db s gid cid))
              \<and> guild_id row = gid \<and> channel_id row = cid)"
    using add_forum_channel_schema [OF assms(1)] add_forum_channel_cache [OF assms]
      add_forum_channel_written [OF assms(1)] by blast
  have b: "(case create_thread_in_db s fid gid tid of
          (Inr _, s') \<Rightarrow>
            schema_ok s' \<and> cache_agrees s'
            \<and> (\<exists>row. problem_threads s' tid = Some row
                   \<and> row \<in> set (db_problem_threads s') \<and> thread_id row = tid)
        | (Inl e, s') \<Rightarrow> s' = s)"
  proof (cases "create_thread_in_db s fid gid tid")
    case (Pair r s')
    from create_thread_in_db_inv [OF assms Pair] show ?thesis
      using Pair by (cases r) auto
  qed
  have c: "schema_ok (delete_thread_from_db s tid)
       \<and> cache_agrees (delete_thread_from_db s tid)
       \<and> tid \<notin> thread_id ` set (db_problem_threads (delete_thread_from_db s tid))
       \<and> problem_threads (delete_thread_from_db s tid) tid = None"
    using delete_thread_schema [OF assms(1)] delete_thread_cache [OF assms(2)]
      delete_thread_gone [OF assms(1)] delete_thread_uncached [OF assms(2)] by blast
  have d: "(\<forall>r rows. forum_channels s gid = Some r \<longrightarrow>
          get_forum_channel (s\<lparr>db_forum_channels := rows\<rparr>) gid = Some r)
    \<and> (forum_channels s gid = None \<longrightarrow>
          get_forum_channel s gid = find (\<lambda>r. guild_id r = gid) (db_forum_channels s))
    \<and> (\<forall>r rows. problem_threads s tid = Some r \<longrightarrow>
          get_thread_by_thread_id (s\<lparr>db_problem_threads := rows\<rparr>) tid = Some r)
    \<and> (problem_threads s tid = None \<longrightarrow>
          get_thread_by_thread_id s tid = find (\<lambda>t. thread_id t = tid) (db_problem_threads s))"
    by (simp add: get_forum_channel_def get_thread_by_thread_id_def)
  have e: "\<forall>c1 c2. get_thread_by_problem_id (s\<lparr>problem_threads := c1, forum_channels := c2\<rparr>) fid gid
          = get_thread_by_problem_id s fid gid"
    by (simp add: get_thread_by_problem_id_def split: option.splits)
  from a b c d e show ?thesis by blast
qed

theorem registry_write_through_witness:
  "schema_ok (add_forum_channel_to_db registry_recorded 42 101)
   \<and> cache_agrees (add_forum_channel_to_db registry_recorded 42 101)
   \<and> schema_ok (delete_thread_from_db registry_recorded 500)
   \<and> cache_agrees (delete_thread_from_db registry_recorded 500)
   \<and> problem_threads (delete_thread_from_db registry_recorded 500) 500 = None
   \<and> get_forum_channel registry_recorded 42 = Some forum_row
   \<and> fst (create_thread_in_db registry_recorded (PyInt 1) 42 600) = Inr ()
   \<and> schema_ok (snd (create_thread_in_db registry_recorded (PyInt 1) 42 600))
   \<and> cache_agrees (snd (create_thread_in_db registry_recorded (PyInt 1) 42 600))
   \<and> problem_threads (snd (create_thread_in_db registry_recorded (PyInt 1) 42 600)) 600
       = Some \<lparr>thread_id = 600, problem_db_id = 7, forum_channel_db_id = 1\<rparr>"
proof -
  have h1: "schema_ok registry_recorded"
    by (simp add: schema_ok_def registry_recorded_def)
  have h2: "cache_agrees registry_recorded"
    by (simp add: cache_agrees_def registry_recorded_def forum_row_def thread_row_def)
  have h3: "forum_channels registry_recorded 42 = Some forum_row"
    by (simp add: registry_recorded_def)
  have "get_forum_channel (registry_recorded\<lparr>db_forum_channels := db_forum_channels registry_recorded\<rparr>) 42
          = Some forum_row"
    using registry_write_through [OF h1 h2, where gid = 42 and cid = 101 and fid = "PyInt 1" and tid = 500] h3 by blast
  then have first: "schema_ok (add_forum_channel_to_db registry_recorded 42 101)
   \<and> cache_agrees (add_forum_channel_to_db registry_recorded 42 101)
   \<and> schema_ok (delete_thread_from_db registry_recorded 500)
   \<and> cache_agrees (delete_thread_from_db registry_recorded 500)
   \<and> problem_threads (delete_thread_from_db registry_recorded 500) 500 = None
   \<and> get_forum_channel registry_recorded 42 = Some forum_row"
    using registry_write_through [OF h1 h2, where gid = 42 and cid = 101 and fid = "PyInt 1" and tid = 500] by simp
  obtain r s' where run: "create_thread_in_db registry_recorded (PyInt 1) 42 600 = (r, s')"
    by (cases "create_thread_in_db registry_recorded (PyInt 1) 42 600")
  have ok: "r = Inr ()"
    and row: "problem_threads s' 600
                = Some \<lparr>thread_id = 600, problem_db_id = 7, forum_channel_db_id = 1\<rparr>"
    using run
    by (auto simp: create_thread_in_db_def create_thread_instance_def get_forum_channel_def
          get_thread_by_thread_id_def registry_recorded_def example_lookup_def two_sum_def
          forum_row_def thread_row_def Let_def)
  have "schema_ok s' \<and> cache_agrees s'"
    using registry_write_through [OF h1 h2, where gid = 42 and cid = 101 and fid = "PyInt 1" and tid = 600]
      run ok by simp
  with first run ok row show ?thesis by simp
qed

text \<open>
  C8, as stated, fails for the read by problem: with the thread of Two Sum in guild 42
  held by the dictionary and absent from the table, the read by thread id answers from
  the dictionary and the read by problem finds nothing.
\<close>

theorem read_by_problem_skips_cache:
  "problem_threads registry_cache_only 500 = Some thread_row
   \<and> problem_db_id thread_row = row_id two_sum
   \<and> forum_channel_db_id thread_row = gfc_id forum_row
   \<and> get_forum_channel registry_cache_only 42 = Some forum_row
   \<and> get_thread_by_thread_id registry_cache_only 500 = Some thread_row
   \<and> get_thread_by_problem_id registry_cache_only (PyInt (row_problem_id two_sum)) 42 = None"
  by (simp add: registry_cache_only_def thread_row_def two_sum_def forum_row_def
        get_forum_channel_def get_thread_by_thread_id_def get_thread_by_problem_id_def
        example_lookup_def)

end
